theory Spec2Isabelle
  imports Main "HOL-Library.Word"
begin

section \<open>Values that cross the interface\<close>

text \<open>
  The header \<^verbatim>\<open>ompl/base/StateValidityChecker.h\<close> only moves values of type
  \<^verbatim>\<open>double\<close> around and names one literal, \<^verbatim>\<open>0.0\<close>; it performs no
  floating-point arithmetic. A \<^verbatim>\<open>double\<close> is therefore kept as its IEEE-754 binary64
  representation (sign, 11 exponent bits, 52 fraction bits), so that every value an
  overriding method can return, NaN and infinities included, is a value of the model.
  The literal \<^verbatim>\<open>0.0\<close> is positive zero: every bit clear.
\<close>

datatype double = Double (sign_bit: bool) (exponent_bits: "11 word") (fraction_bits: "52 word")

definition double_0_0 :: double where
  "double_0_0 = Double False 0 0"

text \<open>
  \<^verbatim>\<open>const State *state\<close> and \<^verbatim>\<open>State *gradient\<close>: pointers. The header itself
  never dereferences either; it hands them on to the virtual functions.
\<close>

datatype State_ptr = nullptr | State_at nat

text \<open>
  \<^verbatim>\<open>double &dist\<close> and \<^verbatim>\<open>bool &gradientAvailable\<close>: references, that is, the
  addresses of a \<^verbatim>\<open>double\<close> and of a \<^verbatim>\<open>bool\<close> object of the caller's choice.
\<close>

type_synonym double_ref = nat
type_synonym bool_ref = nat

section \<open>The world the calls act on\<close>

text \<open>
  Everything a body can read or write: the objects of type \<^verbatim>\<open>double\<close>, of type
  \<^verbatim>\<open>bool\<close> and of type \<^verbatim>\<open>State\<close>, each by address, and whatever else there is
  (\<open>others\<close>). The members of a checker's subclass, the caller's variables and globals
  all live here, so a reference passed to a call may well be bound to an object that an
  overriding body reads or writes. What a \<^verbatim>\<open>State\<close> object holds is of type \<open>'st\<close>
  (\<^verbatim>\<open>ompl/base/State.h\<close> is not part of the header).
\<close>

record ('st, 'x) world =
  double_at :: "double_ref \<Rightarrow> double"
  bool_at :: "bool_ref \<Rightarrow> bool"
  State_obj :: "nat \<Rightarrow> 'st"
  others :: 'x

definition set_double :: "double_ref \<Rightarrow> double \<Rightarrow> ('st, 'x) world \<Rightarrow> ('st, 'x) world" where
  "set_double r v w = w\<lparr> double_at := (double_at w)(r := v) \<rparr>"

definition set_bool :: "bool_ref \<Rightarrow> bool \<Rightarrow> ('st, 'x) world \<Rightarrow> ('st, 'x) world" where
  "set_bool r v w = w\<lparr> bool_at := (bool_at w)(r := v) \<rparr>"


text \<open>What the slot behind a \<^verbatim>\<open>State*\<close> holds; nothing behind the null pointer.\<close>

definition gradient_slot :: "('st, 'x) world \<Rightarrow> State_ptr \<Rightarrow> 'st option" where
  "gradient_slot w gradient =
     (case gradient of nullptr \<Rightarrow> None | State_at a \<Rightarrow> Some (State_obj w a))"

section \<open>StateValidityCheckerSpecs\<close>

record StateValidityCheckerSpecs =
  hasExactClearance :: bool
  hasBoundedApproximateClearance :: bool
  hasApproximateClearance :: bool
  hasGradientComputation :: bool

text \<open>The constructor \<^verbatim>\<open>StateValidityCheckerSpecs(void)\<close> and its initialiser list.\<close>

definition StateValidityCheckerSpecs_ctor :: StateValidityCheckerSpecs where
  "StateValidityCheckerSpecs_ctor =
     \<lparr> hasExactClearance = False,
       hasBoundedApproximateClearance = False,
       hasApproximateClearance = False,
       hasGradientComputation = False \<rparr>"

section \<open>Calls of virtual member functions\<close>

text \<open>
  The bodies a subclass supplies are arbitrary C++: they may read and write whatever they
  can reach in the world and they may be left by an exception or never return. A call is
  therefore a function of the world \<open>w\<close> it starts in; it yields \<open>None\<close> when it does not
  complete with a result and \<open>Some (r, w')\<close> when it returns \<open>r\<close> and leaves the world
  \<open>w'\<close>. The header contains no \<^verbatim>\<open>try\<close>, so a failure inside a callee ends the caller
  too.

  An assignment through a reference parameter is a store into the world at the moment
  the statement runs, so the calls that follow see it. Objects of different types do not
  overlap: a store to a \<^verbatim>\<open>double\<close> leaves every \<^verbatim>\<open>bool\<close> and every
  \<^verbatim>\<open>State\<close> as it was.

  Calls are modelled one at a time: a call runs from the world the previous one left.
  Interleavings of calls made by several threads at once are not represented.
\<close>

type_synonym ('a, 'w) call = "'w \<Rightarrow> ('a \<times> 'w) option"

definition return_call :: "'a \<Rightarrow> ('a, 'w) call" where
  "return_call r = (\<lambda>w. Some (r, w))"

definition then_call :: "('a, 'w) call \<Rightarrow> ('a \<Rightarrow> ('b, 'w) call) \<Rightarrow> ('b, 'w) call" where
  "then_call m k = (\<lambda>w. case m w of None \<Rightarrow> None | Some (r, w') \<Rightarrow> k r w')"

definition store_double :: "double_ref \<Rightarrow> double \<Rightarrow> (unit, ('st, 'x) world) call" where
  "store_double r v = (\<lambda>w. Some ((), set_double r v w))"

definition store_bool :: "bool_ref \<Rightarrow> bool \<Rightarrow> (unit, ('st, 'x) world) call" where
  "store_bool r v = (\<lambda>w. Some ((), set_bool r v w))"

section \<open>StateValidityChecker\<close>

text \<open>
  The dynamic class of a checker: the body it supplies for the pure virtual
  \<^verbatim>\<open>isValid(const State*)\<close>, and for each of the four other virtual functions either
  the overriding body or \<open>None\<close> when the class inherits the one of
  \<^verbatim>\<open>StateValidityChecker\<close>. An overriding body is given already bound to its object.
\<close>

record ('st, 'x) overrides =
  override_isValid :: "State_ptr \<Rightarrow> (bool, ('st, 'x) world) call"
  override_isValid_dist ::
    "(State_ptr \<Rightarrow> double_ref \<Rightarrow> (bool, ('st, 'x) world) call) option"
  override_isValid_grad ::
    "(State_ptr \<Rightarrow> double_ref \<Rightarrow> State_ptr \<Rightarrow> bool_ref \<Rightarrow> (bool, ('st, 'x) world) call) option"
  override_clearance :: "(State_ptr \<Rightarrow> (double, ('st, 'x) world) call) option"
  override_clearance_grad ::
    "(State_ptr \<Rightarrow> State_ptr \<Rightarrow> bool_ref \<Rightarrow> (double, ('st, 'x) world) call) option"

text \<open>
  The object: the two data members and the dynamic class. The members \<^verbatim>\<open>si_\<close> and
  \<^verbatim>\<open>specs_\<close> are written \<open>si_'\<close> and \<open>specs_'\<close>, since a name cannot end in an
  underscore here.
\<close>

record ('si, 'st, 'x) StateValidityChecker =
  si_' :: 'si
  specs_' :: StateValidityCheckerSpecs
  overridden :: "('st, 'x) overrides"

text \<open>
  The two constructors. \<^verbatim>\<open>specs_\<close> is not in the initialiser list, so it is
  default-constructed. The class is abstract: an object exists only as the base part of
  a subclass object, whose overriding bodies are the last argument here.

  The type \<^verbatim>\<open>SpaceInformationPtr\<close> of the second constructor's argument is declared
  by the macro \<^verbatim>\<open>ClassForward\<close> of \<^verbatim>\<open>ompl/util/ClassForward.h\<close>, which is not
  part of the header. The constructor uses one operation of it, \<^verbatim>\<open>si.get()\<close>, which
  is a parameter here: \<open>'sp\<close> is the type of such pointers and \<open>get\<close> yields the raw
  pointer.
\<close>

definition StateValidityChecker_ctor ::
  "'si \<Rightarrow> ('st, 'x) overrides \<Rightarrow> ('si, 'st, 'x) StateValidityChecker" where
  "StateValidityChecker_ctor si cls =
     \<lparr> si_' = si, specs_' = StateValidityCheckerSpecs_ctor, overridden = cls \<rparr>"

definition StateValidityChecker_ctor_shared ::
  "('sp \<Rightarrow> 'si) \<Rightarrow> 'sp \<Rightarrow> ('st, 'x) overrides \<Rightarrow> ('si, 'st, 'x) StateValidityChecker" where
  "StateValidityChecker_ctor_shared get si cls =
     \<lparr> si_' = get si, specs_' = StateValidityCheckerSpecs_ctor, overridden = cls \<rparr>"

subsection \<open>The virtual functions\<close>

text \<open>
  For each virtual function there is the body written in \<^verbatim>\<open>StateValidityChecker\<close>
  (prefixed with the class name) and the virtual call (the plain name), which runs the
  overriding body when the dynamic class has one and the base body otherwise. The base
  bodies call the other functions virtually, as \<^verbatim>\<open>this->f(...)\<close> does. The value a
  call yields is what the C++ function returns; what it assigns through its reference
  parameters is in the world it leaves.

  The overloads are told apart by a suffix:
  \<^item> \<open>isValid\<close> is \<^verbatim>\<open>bool isValid(const State *state) const = 0\<close>;
  \<^item> \<open>isValid_dist\<close> is \<^verbatim>\<open>bool isValid(const State *state, double &dist) const\<close>;
  \<^item> \<open>isValid_grad\<close> is
    \<^verbatim>\<open>bool isValid(const State *state, double &dist, State *gradient, bool &gradientAvailable) const\<close>;
  \<^item> \<open>clearance\<close> is \<^verbatim>\<open>double clearance(const State *state) const\<close>;
  \<^item> \<open>clearance_grad\<close> is
    \<^verbatim>\<open>double clearance(const State *state, State *gradient, bool &gradientAvailable) const\<close>.
\<close>

text \<open>\<^verbatim>\<open>isValid(state)\<close> is pure virtual: the call always runs the body of the class.\<close>

definition isValid ::
  "('si, 'st, 'x) StateValidityChecker \<Rightarrow> State_ptr \<Rightarrow> (bool, ('st, 'x) world) call" where
  "isValid this state = override_isValid (overridden this) state"

text \<open>\<^verbatim>\<open>{ return 0.0; }\<close>\<close>

definition StateValidityChecker_clearance ::
  "('si, 'st, 'x) StateValidityChecker \<Rightarrow> State_ptr \<Rightarrow> (double, ('st, 'x) world) call" where
  "StateValidityChecker_clearance this state = return_call double_0_0"

definition clearance ::
  "('si, 'st, 'x) StateValidityChecker \<Rightarrow> State_ptr \<Rightarrow> (double, ('st, 'x) world) call" where
  "clearance this state =
     (case override_clearance (overridden this) of
        Some body \<Rightarrow> body state
      | None \<Rightarrow> StateValidityChecker_clearance this state)"

text \<open>\<^verbatim>\<open>{ gradientAvailable = false; return clearance(state); }\<close>\<close>

definition StateValidityChecker_clearance_grad ::
  "('si, 'st, 'x) StateValidityChecker \<Rightarrow> State_ptr \<Rightarrow> State_ptr \<Rightarrow> bool_ref
     \<Rightarrow> (double, ('st, 'x) world) call" where
  "StateValidityChecker_clearance_grad this state gradient gradientAvailable =
     then_call (store_bool gradientAvailable False) (\<lambda>_.
     clearance this state)"

definition clearance_grad ::
  "('si, 'st, 'x) StateValidityChecker \<Rightarrow> State_ptr \<Rightarrow> State_ptr \<Rightarrow> bool_ref
     \<Rightarrow> (double, ('st, 'x) world) call" where
  "clearance_grad this state gradient gradientAvailable =
     (case override_clearance_grad (overridden this) of
        Some body \<Rightarrow> body state gradient gradientAvailable
      | None \<Rightarrow> StateValidityChecker_clearance_grad this state gradient gradientAvailable)"

text \<open>\<^verbatim>\<open>{ dist = clearance(state); return isValid(state); }\<close>\<close>

definition StateValidityChecker_isValid_dist ::
  "('si, 'st, 'x) StateValidityChecker \<Rightarrow> State_ptr \<Rightarrow> double_ref
     \<Rightarrow> (bool, ('st, 'x) world) call" where
  "StateValidityChecker_isValid_dist this state dist =
     then_call (clearance this state) (\<lambda>d.
     then_call (store_double dist d) (\<lambda>_.
     isValid this state))"

definition isValid_dist ::
  "('si, 'st, 'x) StateValidityChecker \<Rightarrow> State_ptr \<Rightarrow> double_ref
     \<Rightarrow> (bool, ('st, 'x) world) call" where
  "isValid_dist this state dist =
     (case override_isValid_dist (overridden this) of
        Some body \<Rightarrow> body state dist
      | None \<Rightarrow> StateValidityChecker_isValid_dist this state dist)"

text \<open>
  \<^verbatim>\<open>{ dist = clearance(state, gradient, gradientAvailable); return isValid(state); }\<close>
\<close>

definition StateValidityChecker_isValid_grad ::
  "('si, 'st, 'x) StateValidityChecker \<Rightarrow> State_ptr \<Rightarrow> double_ref \<Rightarrow> State_ptr \<Rightarrow> bool_ref
     \<Rightarrow> (bool, ('st, 'x) world) call" where
  "StateValidityChecker_isValid_grad this state dist gradient gradientAvailable =
     then_call (clearance_grad this state gradient gradientAvailable) (\<lambda>d.
     then_call (store_double dist d) (\<lambda>_.
     isValid this state))"

definition isValid_grad ::
  "('si, 'st, 'x) StateValidityChecker \<Rightarrow> State_ptr \<Rightarrow> double_ref \<Rightarrow> State_ptr \<Rightarrow> bool_ref
     \<Rightarrow> (bool, ('st, 'x) world) call" where
  "isValid_grad this state dist gradient gradientAvailable =
     (case override_isValid_grad (overridden this) of
        Some body \<Rightarrow> body state dist gradient gradientAvailable
      | None \<Rightarrow> StateValidityChecker_isValid_grad this state dist gradient gradientAvailable)"

subsection \<open>getSpecs\<close>

text \<open>
  \<^verbatim>\<open>const StateValidityCheckerSpecs& getSpecs(void) const { return specs_; }\<close>
  is not virtual. It is written in state-passing form, the object being the state: the
  value of \<^verbatim>\<open>specs_\<close> it returns a reference to, and the object as the body leaves
  it.
\<close>

definition getSpecs ::
  "('si, 'st, 'x) StateValidityChecker
     \<Rightarrow> StateValidityCheckerSpecs \<times> ('si, 'st, 'x) StateValidityChecker" where
  "getSpecs this = (specs_' this, this)"

text \<open>A caller that asks for the specifications \<open>n\<close> times in a row.\<close>

primrec getSpecs_calls ::
  "nat \<Rightarrow> ('si, 'st, 'x) StateValidityChecker
     \<Rightarrow> StateValidityCheckerSpecs list \<times> ('si, 'st, 'x) StateValidityChecker" where
  "getSpecs_calls 0 this = ([], this)"
| "getSpecs_calls (Suc n) this =
     (case getSpecs this of (s, this') \<Rightarrow>
      case getSpecs_calls n this' of (ss, this'') \<Rightarrow> (s # ss, this''))"

section \<open>AllValidStateValidityChecker\<close>

text \<open>\<^verbatim>\<open>virtual bool isValid(const State * /* state */ ) const { return true; }\<close>\<close>

definition AllValidStateValidityChecker_isValid ::
  "State_ptr \<Rightarrow> (bool, ('st, 'x) world) call" where
  "AllValidStateValidityChecker_isValid state = return_call True"

text \<open>The class overrides \<^verbatim>\<open>isValid(const State*)\<close> and nothing else.\<close>

definition AllValidStateValidityChecker_class :: "('st, 'x) overrides" where
  "AllValidStateValidityChecker_class =
     \<lparr> override_isValid = AllValidStateValidityChecker_isValid,
       override_isValid_dist = None,
       override_isValid_grad = None,
       override_clearance = None,
       override_clearance_grad = None \<rparr>"

definition AllValidStateValidityChecker ::
  "'si \<Rightarrow> ('si, 'st, 'x) StateValidityChecker" where
  "AllValidStateValidityChecker si = StateValidityChecker_ctor si AllValidStateValidityChecker_class"

definition AllValidStateValidityChecker_shared ::
  "('sp \<Rightarrow> 'si) \<Rightarrow> 'sp \<Rightarrow> ('si, 'st, 'x) StateValidityChecker" where
  "AllValidStateValidityChecker_shared get si =
     StateValidityChecker_ctor_shared get si AllValidStateValidityChecker_class"

section \<open>Classes of checkers the properties speak about\<close>

text \<open>A checker whose class overrides \<^verbatim>\<open>isValid(const State*)\<close> only.\<close>

definition overrides_only_isValid :: "('si, 'st, 'x) StateValidityChecker \<Rightarrow> bool" where
  "overrides_only_isValid this \<longleftrightarrow>
     override_isValid_dist (overridden this) = None \<and>
     override_isValid_grad (overridden this) = None \<and>
     override_clearance (overridden this) = None \<and>
     override_clearance_grad (overridden this) = None"

section \<open>Subclasses used as concrete inputs\<close>

text \<open>
  Small client subclasses, on which the theorems below are instantiated, and the world
  they are called in: every \<^verbatim>\<open>double\<close> holds -2.0, every \<^verbatim>\<open>bool\<close> holds true,
  every \<^verbatim>\<open>State\<close> holds 0, and \<open>others\<close> counts the validity queries answered.
\<close>

definition double_2_0 :: double where
  "double_2_0 = Double False 1024 0"

definition double_minus_2_0 :: double where
  "double_minus_2_0 = Double True 1024 0"

definition start_world :: "(nat, nat) world" where
  "start_world =
     \<lparr> double_at = (\<lambda>_. double_minus_2_0), bool_at = (\<lambda>_. True),
       State_obj = (\<lambda>_. 0), others = 0 \<rparr>"

text \<open>Overrides \<^verbatim>\<open>isValid(const State*)\<close> only: states at even addresses are valid.\<close>

definition parity_class :: "(nat, nat) overrides" where
  "parity_class =
     \<lparr> override_isValid =
         (\<lambda>state w. Some ((case state of nullptr \<Rightarrow> False | State_at a \<Rightarrow> even a),
                           w\<lparr> others := Suc (others w) \<rparr>)),
       override_isValid_dist = None,
       override_isValid_grad = None,
       override_clearance = None,
       override_clearance_grad = None \<rparr>"

definition parity_checker :: "(nat, nat, nat) StateValidityChecker" where
  "parity_checker = StateValidityChecker_ctor 0 parity_class"



text \<open>
  Overrides \<^verbatim>\<open>isValid(const State*)\<close> and \<^verbatim>\<open>clearance(const State*)\<close>, with a
  member \<^verbatim>\<open>bool far\<close> at address 0: \<^verbatim>\<open>{ return far ? 2.0 : 0.0; }\<close>.
\<close>

definition margin_clearance :: "State_ptr \<Rightarrow> (double, (nat, nat) world) call" where
  "margin_clearance state = (\<lambda>w. Some (if bool_at w 0 then double_2_0 else double_0_0, w))"

definition margin_class :: "(nat, nat) overrides" where
  "margin_class =
     \<lparr> override_isValid = (\<lambda>state w. Some (state \<noteq> nullptr, w\<lparr> others := Suc (others w) \<rparr>)),
       override_isValid_dist = None,
       override_isValid_grad = None,
       override_clearance = Some margin_clearance,
       override_clearance_grad = None \<rparr>"

definition margin_checker :: "(nat, nat, nat) StateValidityChecker" where
  "margin_checker = StateValidityChecker_ctor 0 margin_class"







text \<open>
  Overrides \<^verbatim>\<open>isValid(const State*)\<close> and \<^verbatim>\<open>clearance(const State*)\<close>; the
  latter is left by an exception on every state.
\<close>

definition throwing_class :: "(nat, nat) overrides" where
  "throwing_class =
     \<lparr> override_isValid = (\<lambda>state w. Some (state \<noteq> nullptr, w)),
       override_isValid_dist = None,
       override_isValid_grad = None,
       override_clearance = Some (\<lambda>state w. None),
       override_clearance_grad = None \<rparr>"

definition throwing_checker :: "(nat, nat, nat) StateValidityChecker" where
  "throwing_checker = StateValidityChecker_ctor 0 throwing_class"

section \<open>Stores\<close>

lemma set_double_simps:
  "double_at (set_double r v w) r = v"
  "bool_at (set_double r v w) = bool_at w"
  "State_obj (set_double r v w) = State_obj w"
  "others (set_double r v w) = others w"
  "gradient_slot (set_double r v w) g = gradient_slot w g"
  by (simp_all add: set_double_def gradient_slot_def split: State_ptr.splits)

lemma set_bool_simps:
  "bool_at (set_bool r v w) r = v"
  "double_at (set_bool r v w) = double_at w"
  "State_obj (set_bool r v w) = State_obj w"
  "others (set_bool r v w) = others w"
  "gradient_slot (set_bool r v w) g = gradient_slot w g"
  by (simp_all add: set_bool_def gradient_slot_def split: State_ptr.splits)

section \<open>Sequencing of calls\<close>

lemma then_call_store_bool: "then_call (store_bool r v) k w = k () (set_bool r v w)"
  by (simp add: then_call_def store_bool_def)

section \<open>Virtual calls that reach the base bodies\<close>

lemma clearance_base:
  "override_clearance (overridden this) = None \<Longrightarrow> clearance this state w = Some (double_0_0, w)"
  by (simp add: clearance_def StateValidityChecker_clearance_def return_call_def)

lemma clearance_grad_base:
  "override_clearance_grad (overridden this) = None \<Longrightarrow>
   clearance_grad this state gradient gradientAvailable w =
     clearance this state (set_bool gradientAvailable False w)"
  by (simp add: clearance_grad_def StateValidityChecker_clearance_grad_def then_call_store_bool)

lemma isValid_dist_base:
  "override_isValid_dist (overridden this) = None \<Longrightarrow>
   isValid_dist this state dist w =
     (case clearance this state w of
        None \<Rightarrow> None
      | Some (d, w1) \<Rightarrow> isValid this state (set_double dist d w1))"
  by (simp add: isValid_dist_def StateValidityChecker_isValid_dist_def then_call_def
      store_double_def split: option.splits)

lemma isValid_grad_base:
  "override_isValid_grad (overridden this) = None \<Longrightarrow>
   isValid_grad this state dist gradient gradientAvailable w =
     (case clearance_grad this state gradient gradientAvailable w of
        None \<Rightarrow> None
      | Some (d, w1) \<Rightarrow> isValid this state (set_double dist d w1))"
  by (simp add: isValid_grad_def StateValidityChecker_isValid_grad_def then_call_def
      store_double_def split: option.splits)

lemma only_isValid_isValid_grad:
  assumes "overrides_only_isValid this"
  shows "isValid_grad this state dist gradient gradientAvailable w =
           isValid this state (set_double dist double_0_0 (set_bool gradientAvailable False w))"
proof -
  from assms have i: "override_isValid_grad (overridden this) = None"
    and c: "override_clearance (overridden this) = None"
    and g: "override_clearance_grad (overridden this) = None"
    by (simp_all add: overrides_only_isValid_def)
  show ?thesis
    by (simp add: isValid_grad_base [OF i] clearance_grad_base [OF g] clearance_base [OF c])
qed

lemma AllValid_only_isValid:
  "overrides_only_isValid (AllValidStateValidityChecker si)"
  "overrides_only_isValid (AllValidStateValidityChecker_shared get sp)"
  by (simp_all add: overrides_only_isValid_def AllValidStateValidityChecker_def
      AllValidStateValidityChecker_shared_def StateValidityChecker_ctor_def
      StateValidityChecker_ctor_shared_def AllValidStateValidityChecker_class_def)

lemma AllValid_isValid:
  "isValid (AllValidStateValidityChecker si) state w = Some (True, w)"
  "isValid (AllValidStateValidityChecker_shared get sp) state w = Some (True, w)"
  by (simp_all add: isValid_def AllValidStateValidityChecker_def
      AllValidStateValidityChecker_shared_def StateValidityChecker_ctor_def
      StateValidityChecker_ctor_shared_def AllValidStateValidityChecker_class_def
      AllValidStateValidityChecker_isValid_def return_call_def)

lemma getSpecs_calls_eq: "getSpecs_calls n this = (replicate n (specs_' this), this)"
  by (induction n) (simp_all add: getSpecs_def)

section \<open>The fallback chain\<close>



text \<open>
  C3. For a checker that overrides only \<^verbatim>\<open>isValid(const State*)\<close>,
  \<^verbatim>\<open>clearance(state)\<close> returns 0.0 for every state and changes nothing, and
  \<^verbatim>\<open>clearance(state, gradient, gradientAvailable)\<close> returns 0.0 and leaves the flag
  false, for every state; the gradient slot is left as it was, and so is everything else.
\<close>

theorem clearance_only_isValid:
  assumes "overrides_only_isValid this"
  shows "clearance this state w = Some (double_0_0, w)
         \<and> clearance_grad this state gradient gradientAvailable w =
             Some (double_0_0, set_bool gradientAvailable False w)
         \<and> bool_at (set_bool gradientAvailable False w) gradientAvailable = False
         \<and> gradient_slot (set_bool gradientAvailable False w) gradient = gradient_slot w gradient"
proof -
  from assms have c: "override_clearance (overridden this) = None"
    and g: "override_clearance_grad (overridden this) = None"
    by (simp_all add: overrides_only_isValid_def)
  show ?thesis
    by (simp add: clearance_base [OF c] clearance_grad_base [OF g] set_bool_simps)
qed

theorem clearance_only_isValid_witness:
  "overrides_only_isValid parity_checker
   \<and> clearance parity_checker (State_at 3) start_world = Some (double_0_0, start_world)
   \<and> bool_at start_world 5
   \<and> clearance_grad parity_checker (State_at 3) (State_at 4) 5 start_world =
       Some (double_0_0, set_bool 5 False start_world)
   \<and> bool_at (set_bool 5 False start_world) 5 = False"
proof -
  have h: "overrides_only_isValid parity_checker"
    by (simp add: overrides_only_isValid_def parity_checker_def parity_class_def
        StateValidityChecker_ctor_def)
  note t = clearance_only_isValid [OF h, of "State_at 3" start_world "State_at 4" 5]
  have s: "bool_at start_world 5" by (simp add: start_world_def)
  show ?thesis using h s t by blast
qed







section \<open>The all-valid checker\<close>

text \<open>
  C5. \<^verbatim>\<open>AllValidStateValidityChecker\<close>, built by either constructor, overrides
  \<^verbatim>\<open>isValid(const State*)\<close> only. Its \<^verbatim>\<open>isValid(state)\<close> returns true for every
  state and changes nothing; its \<^verbatim>\<open>clearance(state)\<close> is 0.0; and the gradient is
  never available: both \<^verbatim>\<open>clearance(state, gradient, gradientAvailable)\<close> and the
  four-argument \<^verbatim>\<open>isValid\<close> leave the flag false and the slot as it was, the latter
  returning true with 0.0 in \<^verbatim>\<open>dist\<close>.
\<close>

theorem AllValid_all_valid:
  "overrides_only_isValid (AllValidStateValidityChecker si)
   \<and> isValid (AllValidStateValidityChecker si) state w = Some (True, w)
   \<and> clearance (AllValidStateValidityChecker si) state w = Some (double_0_0, w)
   \<and> clearance_grad (AllValidStateValidityChecker si) state gradient gradientAvailable w =
       Some (double_0_0, set_bool gradientAvailable False w)
   \<and> isValid_grad (AllValidStateValidityChecker si) state dist gradient gradientAvailable w =
       Some (True, set_double dist double_0_0 (set_bool gradientAvailable False w))
   \<and> overrides_only_isValid (AllValidStateValidityChecker_shared get sp)
   \<and> isValid (AllValidStateValidityChecker_shared get sp) state w = Some (True, w)
   \<and> clearance (AllValidStateValidityChecker_shared get sp) state w = Some (double_0_0, w)
   \<and> clearance_grad (AllValidStateValidityChecker_shared get sp) state gradient gradientAvailable w =
       Some (double_0_0, set_bool gradientAvailable False w)
   \<and> isValid_grad (AllValidStateValidityChecker_shared get sp) state dist gradient
         gradientAvailable w =
       Some (True, set_double dist double_0_0 (set_bool gradientAvailable False w))
   \<and> bool_at (set_bool gradientAvailable False w) gradientAvailable = False
   \<and> gradient_slot (set_bool gradientAvailable False w) gradient = gradient_slot w gradient
   \<and> bool_at (set_double dist double_0_0 (set_bool gradientAvailable False w))
         gradientAvailable = False
   \<and> double_at (set_double dist double_0_0 (set_bool gradientAvailable False w)) dist =
       double_0_0
   \<and> gradient_slot (set_double dist double_0_0 (set_bool gradientAvailable False w)) gradient =
       gradient_slot w gradient"
proof -
  note o = AllValid_only_isValid(1) [of si] AllValid_only_isValid(2) [of get sp]
  note c = o [unfolded overrides_only_isValid_def]
  show ?thesis
    by (simp add: o AllValid_isValid only_isValid_isValid_grad clearance_grad_base c
        clearance_base set_double_simps set_bool_simps)
qed

section \<open>Capabilities\<close>

text \<open>
  C6. For a checker that either constructor of \<^verbatim>\<open>StateValidityChecker\<close> has built,
  whatever its dynamic class, and on which no flag has been assigned since,
  \<^verbatim>\<open>getSpecs()\<close> returns a descriptor whose four flags are all false. The same holds
  for \<^verbatim>\<open>AllValidStateValidityChecker\<close>.
\<close>

theorem getSpecs_fresh_checker:
  "fst (getSpecs (StateValidityChecker_ctor si cls)) =
     \<lparr> hasExactClearance = False, hasBoundedApproximateClearance = False,
       hasApproximateClearance = False, hasGradientComputation = False \<rparr>
   \<and> fst (getSpecs (StateValidityChecker_ctor_shared get sp cls)) =
     \<lparr> hasExactClearance = False, hasBoundedApproximateClearance = False,
       hasApproximateClearance = False, hasGradientComputation = False \<rparr>
   \<and> fst (getSpecs (AllValidStateValidityChecker si)) =
     \<lparr> hasExactClearance = False, hasBoundedApproximateClearance = False,
       hasApproximateClearance = False, hasGradientComputation = False \<rparr>
   \<and> fst (getSpecs (AllValidStateValidityChecker_shared get sp)) =
     \<lparr> hasExactClearance = False, hasBoundedApproximateClearance = False,
       hasApproximateClearance = False, hasGradientComputation = False \<rparr>"
  by (simp add: getSpecs_def StateValidityChecker_ctor_def StateValidityChecker_ctor_shared_def
      AllValidStateValidityChecker_def AllValidStateValidityChecker_shared_def
      StateValidityCheckerSpecs_ctor_def)

text \<open>
  C7. \<^verbatim>\<open>getSpecs()\<close> leaves the checker as it found it: every field, the context
  pointer among them, is unchanged; asking again returns an equal descriptor; and \<open>n\<close>
  calls in a row return \<open>n\<close> copies of the same descriptor and the checker unchanged.
\<close>

theorem getSpecs_never_mutates:
  "snd (getSpecs this) = this
   \<and> si_' (snd (getSpecs this)) = si_' this
   \<and> fst (getSpecs (snd (getSpecs this))) = fst (getSpecs this)
   \<and> getSpecs_calls n this = (replicate n (fst (getSpecs this)), this)"
  by (simp add: getSpecs_calls_eq) (simp add: getSpecs_def)

section \<open>Independence of the input\<close>

text \<open>
  C10. \<^verbatim>\<open>AllValidStateValidityChecker::isValid\<close> does not depend on its argument:
  for any two state pointers it returns the same, namely true, and it does so for the
  null pointer too. It reads nothing of the world the pointer points into (the boolean
  is the same in any two worlds) and leaves that world as it was.
\<close>

theorem AllValid_isValid_ignores_state:
  "isValid (AllValidStateValidityChecker si) s1 w = isValid (AllValidStateValidityChecker si) s2 w
   \<and> isValid (AllValidStateValidityChecker si) s1 w = Some (True, w)
   \<and> isValid (AllValidStateValidityChecker si) nullptr w = Some (True, w)
   \<and> map_option fst (isValid (AllValidStateValidityChecker si) s1 w1) =
       map_option fst (isValid (AllValidStateValidityChecker si) s2 w2)
   \<and> isValid (AllValidStateValidityChecker_shared get sp) s1 w =
       isValid (AllValidStateValidityChecker_shared get sp) s2 w
   \<and> isValid (AllValidStateValidityChecker_shared get sp) s1 w = Some (True, w)
   \<and> isValid (AllValidStateValidityChecker_shared get sp) nullptr w = Some (True, w)
   \<and> map_option fst (isValid (AllValidStateValidityChecker_shared get sp) s1 w1) =
       map_option fst (isValid (AllValidStateValidityChecker_shared get sp) s2 w2)"
  by (simp add: AllValid_isValid)


section \<open>Completion\<close>

text \<open>
  C8, as stated, has every call complete with a result on every well-formed state. The
  header does not keep an overriding body from being left by an exception. The checker
  below overrides \<^verbatim>\<open>clearance(const State*)\<close> with a body that throws; its
  \<^verbatim>\<open>isValid(state)\<close> completes on the state, and four of the five virtual calls do
  not.
\<close>

theorem throwing_clearance_does_not_complete:
  "isValid throwing_checker (State_at 3) start_world = Some (True, start_world)
   \<and> clearance throwing_checker (State_at 3) start_world = None
   \<and> clearance_grad throwing_checker (State_at 3) (State_at 4) 5 start_world = None
   \<and> isValid_dist throwing_checker (State_at 3) 2 start_world = None
   \<and> isValid_grad throwing_checker (State_at 3) 2 (State_at 4) 5 start_world = None"
  by (simp add: isValid_def clearance_def clearance_grad_def isValid_dist_def isValid_grad_def
      StateValidityChecker_clearance_grad_def StateValidityChecker_isValid_dist_def
      StateValidityChecker_isValid_grad_def throwing_checker_def throwing_class_def
      StateValidityChecker_ctor_def then_call_def store_bool_def)

text \<open>
  C8, amended by one precondition: the bodies that the checker's class supplies
  complete with a result on the state. The result types of the interface hold no error
  value, and the bodies written in the header neither raise nor catch anything:
  \<^item> \<^verbatim>\<open>getSpecs()\<close> always completes;
  \<^item> \<^verbatim>\<open>clearance(state)\<close>, when not overridden, always completes, with 0.0;
  \<^item> each other function, when not overridden, fails to complete exactly when a virtual
    call it makes does;
  \<^item> so, under the precondition, each of the five virtual calls completes with a
    result;
  \<^item> for a checker that overrides only \<^verbatim>\<open>isValid(const State*)\<close>, the two richer
    \<^verbatim>\<open>isValid\<close> overloads complete exactly when the \<^verbatim>\<open>isValid(state)\<close> they run
    does.

  None of this looks at the state: the header hands the pointer on and never
  dereferences it, so the same holds for a null pointer; the all-valid checker completes
  on it.
\<close>

theorem header_adds_no_failure:
  "(\<exists>r this'. getSpecs this = (r, this'))
   \<and> (override_clearance (overridden this) = None \<longrightarrow>
        clearance this state w = Some (double_0_0, w))
   \<and> (override_clearance_grad (overridden this) = None \<longrightarrow>
        (clearance_grad this state gradient gradientAvailable w = None
           \<longleftrightarrow> clearance this state (set_bool gradientAvailable False w) = None))
   \<and> (override_isValid_dist (overridden this) = None \<longrightarrow>
        (isValid_dist this state dist w = None
           \<longleftrightarrow> clearance this state w = None
               \<or> (\<exists>d w1. clearance this state w = Some (d, w1)
                     \<and> isValid this state (set_double dist d w1) = None)))
   \<and> (override_isValid_grad (overridden this) = None \<longrightarrow>
        (isValid_grad this state dist gradient gradientAvailable w = None
           \<longleftrightarrow> clearance_grad this state gradient gradientAvailable w = None
               \<or> (\<exists>d w1. clearance_grad this state gradient gradientAvailable w = Some (d, w1)
                     \<and> isValid this state (set_double dist d w1) = None)))
   \<and> ((\<forall>w. \<exists>r w'. override_isValid (overridden this) state w = Some (r, w'))
        \<and> (case override_isValid_dist (overridden this) of None \<Rightarrow> True
            | Some body \<Rightarrow> \<forall>dist w. \<exists>r w'. body state dist w = Some (r, w'))
        \<and> (case override_isValid_grad (overridden this) of None \<Rightarrow> True
            | Some body \<Rightarrow> \<forall>dist g ga w. \<exists>r w'. body state dist g ga w = Some (r, w'))
        \<and> (case override_clearance (overridden this) of None \<Rightarrow> True
            | Some body \<Rightarrow> \<forall>w. \<exists>r w'. body state w = Some (r, w'))
        \<and> (case override_clearance_grad (overridden this) of None \<Rightarrow> True
            | Some body \<Rightarrow> \<forall>g ga w. \<exists>r w'. body state g ga w = Some (r, w'))
       \<longrightarrow> (\<exists>r w'. isValid this state w = Some (r, w'))
           \<and> (\<exists>r w'. isValid_dist this state dist w = Some (r, w'))
           \<and> (\<exists>r w'. isValid_grad this state dist gradient gradientAvailable w = Some (r, w'))
           \<and> (\<exists>r w'. clearance this state w = Some (r, w'))
           \<and> (\<exists>r w'. clearance_grad this state gradient gradientAvailable w = Some (r, w')))
   \<and> (overrides_only_isValid this \<longrightarrow>
        (isValid_dist this state dist w = None
           \<longleftrightarrow> isValid this state (set_double dist double_0_0 w) = None)
        \<and> (isValid_grad this state dist gradient gradientAvailable w = None
           \<longleftrightarrow> isValid this state
                 (set_double dist double_0_0 (set_bool gradientAvailable False w)) = None))
   \<and> isValid_dist (AllValidStateValidityChecker si) nullptr dist w =
       Some (True, set_double dist double_0_0 w)
   \<and> isValid_grad (AllValidStateValidityChecker si) nullptr dist gradient gradientAvailable w =
       Some (True, set_double dist double_0_0 (set_bool gradientAvailable False w))"
proof -
  have s: "\<exists>r this'. getSpecs this = (r, this')"
    by (simp add: getSpecs_def)
  have c: "clearance this state w = Some (double_0_0, w)"
    if "override_clearance (overridden this) = None"
    using that by (rule clearance_base)
  have cg: "clearance_grad this state gradient gradientAvailable w = None
              \<longleftrightarrow> clearance this state (set_bool gradientAvailable False w) = None"
    if "override_clearance_grad (overridden this) = None"
    using that by (simp add: clearance_grad_base)
  have vd: "isValid_dist this state dist w = None
              \<longleftrightarrow> clearance this state w = None
                  \<or> (\<exists>d w1. clearance this state w = Some (d, w1)
                        \<and> isValid this state (set_double dist d w1) = None)"
    if "override_isValid_dist (overridden this) = None"
    using that by (auto simp add: isValid_dist_base split: option.splits)
  have vg: "isValid_grad this state dist gradient gradientAvailable w = None
              \<longleftrightarrow> clearance_grad this state gradient gradientAvailable w = None
                  \<or> (\<exists>d w1. clearance_grad this state gradient gradientAvailable w = Some (d, w1)
                        \<and> isValid this state (set_double dist d w1) = None)"
    if "override_isValid_grad (overridden this) = None"
    using that by (auto simp add: isValid_grad_base split: option.splits)
  have all: "(\<exists>r w'. isValid this state w = Some (r, w'))
           \<and> (\<exists>r w'. isValid_dist this state dist w = Some (r, w'))
           \<and> (\<exists>r w'. isValid_grad this state dist gradient gradientAvailable w = Some (r, w'))
           \<and> (\<exists>r w'. clearance this state w = Some (r, w'))
           \<and> (\<exists>r w'. clearance_grad this state gradient gradientAvailable w = Some (r, w'))"
    if hv: "\<forall>w. \<exists>r w'. override_isValid (overridden this) state w = Some (r, w')"
      and hvd: "case override_isValid_dist (overridden this) of None \<Rightarrow> True
                | Some body \<Rightarrow> \<forall>dist w. \<exists>r w'. body state dist w = Some (r, w')"
      and hvg: "case override_isValid_grad (overridden this) of None \<Rightarrow> True
                | Some body \<Rightarrow> \<forall>dist g ga w. \<exists>r w'. body state dist g ga w = Some (r, w')"
      and hc: "case override_clearance (overridden this) of None \<Rightarrow> True
               | Some body \<Rightarrow> \<forall>w. \<exists>r w'. body state w = Some (r, w')"
      and hcg: "case override_clearance_grad (overridden this) of None \<Rightarrow> True
                | Some body \<Rightarrow> \<forall>g ga w. \<exists>r w'. body state g ga w = Some (r, w')"
  proof -
    have 1: "\<exists>r w'. isValid this state w = Some (r, w')" for w
      using hv by (simp add: isValid_def)
    have 2: "\<exists>r w'. clearance this state w = Some (r, w')" for w
      using hc by (cases "override_clearance (overridden this)")
        (simp_all add: clearance_def StateValidityChecker_clearance_def return_call_def)
    have 3: "\<exists>r w'. clearance_grad this state g ga w = Some (r, w')" for g ga w
    proof (cases "override_clearance_grad (overridden this)")
      case None
      then show ?thesis using 2 by (simp add: clearance_grad_base)
    next
      case (Some body)
      then show ?thesis using hcg by (simp add: clearance_grad_def)
    qed
    have 4: "\<exists>r w'. isValid_dist this state dist w = Some (r, w')"
    proof (cases "override_isValid_dist (overridden this)")
      case None
      obtain d w1 where a: "clearance this state w = Some (d, w1)" using 2 by blast
      show ?thesis using 1 by (simp add: isValid_dist_base [OF None] a)
    next
      case (Some body)
      then show ?thesis using hvd by (simp add: isValid_dist_def)
    qed
    have 5: "\<exists>r w'. isValid_grad this state dist gradient gradientAvailable w = Some (r, w')"
    proof (cases "override_isValid_grad (overridden this)")
      case None
      obtain d w1 where
        a: "clearance_grad this state gradient gradientAvailable w = Some (d, w1)"
        using 3 by blast
      show ?thesis using 1 by (simp add: isValid_grad_base [OF None] a)
    next
      case (Some body)
      then show ?thesis using hvg by (simp add: isValid_grad_def)
    qed
    show ?thesis using 1 2 3 4 5 by blast
  qed
  have only: "(isValid_dist this state dist w = None
                 \<longleftrightarrow> isValid this state (set_double dist double_0_0 w) = None)
              \<and> (isValid_grad this state dist gradient gradientAvailable w = None
                 \<longleftrightarrow> isValid this state
                       (set_double dist double_0_0 (set_bool gradientAvailable False w)) = None)"
    if o: "overrides_only_isValid this"
  proof -
    from o have d: "override_isValid_dist (overridden this) = None"
      and k: "override_clearance (overridden this) = None"
      by (simp_all add: overrides_only_isValid_def)
    show ?thesis
      by (simp add: isValid_dist_base [OF d] clearance_base [OF k]
          only_isValid_isValid_grad [OF o])
  qed
  note o = AllValid_only_isValid(1) [of si]
  note n = o [unfolded overrides_only_isValid_def]
  have av: "isValid_dist (AllValidStateValidityChecker si) nullptr dist w =
              Some (True, set_double dist double_0_0 w)"
    by (simp add: isValid_dist_base n clearance_base AllValid_isValid)
  have ag: "isValid_grad (AllValidStateValidityChecker si) nullptr dist gradient
              gradientAvailable w =
              Some (True, set_double dist double_0_0 (set_bool gradientAvailable False w))"
    by (simp add: only_isValid_isValid_grad [OF o] AllValid_isValid)
  show ?thesis using s c cg vd vg all only av ag by blast
qed

theorem header_adds_no_failure_witness:
  "(\<exists>r w'. isValid margin_checker (State_at 3) start_world = Some (r, w'))
   \<and> (\<exists>r w'. isValid_dist margin_checker (State_at 3) 2 start_world = Some (r, w'))
   \<and> (\<exists>r w'. isValid_grad margin_checker (State_at 3) 2 (State_at 4) 5 start_world = Some (r, w'))
   \<and> (\<exists>r w'. clearance margin_checker (State_at 3) start_world = Some (r, w'))
   \<and> (\<exists>r w'. clearance_grad margin_checker (State_at 3) (State_at 4) 5 start_world = Some (r, w'))
   \<and> overrides_only_isValid parity_checker
   \<and> clearance parity_checker nullptr start_world = Some (double_0_0, start_world)
   \<and> isValid_dist parity_checker nullptr 2 start_world \<noteq> None"
proof -
  have o: "overridden margin_checker = margin_class"
    by (simp add: margin_checker_def StateValidityChecker_ctor_def)
  have v: "\<forall>w. \<exists>r w'. override_isValid (overridden margin_checker) (State_at 3) w = Some (r, w')"
    by (auto simp add: o margin_class_def)
  have vd: "case override_isValid_dist (overridden margin_checker) of None \<Rightarrow> True
            | Some body \<Rightarrow> \<forall>dist w. \<exists>r w'. body (State_at 3) dist w = Some (r, w')"
    by (simp add: o margin_class_def)
  have vg: "case override_isValid_grad (overridden margin_checker) of None \<Rightarrow> True
            | Some body \<Rightarrow> \<forall>dist g ga w. \<exists>r w'. body (State_at 3) dist g ga w = Some (r, w')"
    by (simp add: o margin_class_def)
  have c: "case override_clearance (overridden margin_checker) of None \<Rightarrow> True
           | Some body \<Rightarrow> \<forall>w. \<exists>r w'. body (State_at 3) w = Some (r, w')"
    by (auto simp add: o margin_class_def margin_clearance_def)
  have cg: "case override_clearance_grad (overridden margin_checker) of None \<Rightarrow> True
            | Some body \<Rightarrow> \<forall>g ga w. \<exists>r w'. body (State_at 3) g ga w = Some (r, w')"
    by (simp add: o margin_class_def)
  note t = header_adds_no_failure [of margin_checker "State_at 3" start_world "State_at 4" 5 2
      "0::nat"]
  from t v vd vg c cg
  have m: "(\<exists>r w'. isValid margin_checker (State_at 3) start_world = Some (r, w'))
   \<and> (\<exists>r w'. isValid_dist margin_checker (State_at 3) 2 start_world = Some (r, w'))
   \<and> (\<exists>r w'. isValid_grad margin_checker (State_at 3) 2 (State_at 4) 5 start_world = Some (r, w'))
   \<and> (\<exists>r w'. clearance margin_checker (State_at 3) start_world = Some (r, w'))
   \<and> (\<exists>r w'. clearance_grad margin_checker (State_at 3) (State_at 4) 5 start_world = Some (r, w'))"
    by blast
  have op: "overridden parity_checker = parity_class"
    by (simp add: parity_checker_def StateValidityChecker_ctor_def)
  have hp: "overrides_only_isValid parity_checker"
    by (simp add: overrides_only_isValid_def op parity_class_def)
  then have hc: "override_clearance (overridden parity_checker) = None"
    by (simp add: overrides_only_isValid_def)
  have vp: "isValid parity_checker nullptr (set_double 2 double_0_0 start_world) \<noteq> None"
    by (simp add: isValid_def op parity_class_def)
  note t' = header_adds_no_failure [of parity_checker nullptr start_world "State_at 4" 5 2
      "0::nat"]
  from t' hp hc vp
  have p: "clearance parity_checker nullptr start_world = Some (double_0_0, start_world)
           \<and> isValid_dist parity_checker nullptr 2 start_world \<noteq> None"
    by blast
  show ?thesis using m hp p by simp
qed

end
